theory Spec2Isabelle
  imports Complex_Main "HOL-Library.Sublist"
begin

section \<open>The voice-capture hook of Voice2Canvas\<close>

text \<open>
  A shallow embedding of \<^verbatim>\<open>src/hooks/useSpeechRecognition.ts\<close> and of the error
  display of \<^verbatim>\<open>src/components/VoiceRecorder.tsx\<close>. The React state cells
  (\<^verbatim>\<open>useState\<close>) and the ref (\<^verbatim>\<open>useRef\<close>) of the hook are the fields of one
  record; every setter call is a record update. The browser is a parameter: what its
  calls answer is read from an \<open>environment\<close>, and what the hook asks of it is logged.
\<close>

subsection \<open>Values of the platform\<close>

text \<open>A recognition object is named by the order of its construction.\<close>

type_synonym handle = nat

text \<open>A thrown JavaScript value, as far as the hook reads it: \<^verbatim>\<open>err.name\<close>, \<^verbatim>\<open>err.message\<close>.\<close>

record js_error =
  err_name :: string
  err_message :: string

definition new_Error :: "string \<Rightarrow> js_error" where
  "new_Error msg = \<lparr>err_name = ''Error'', err_message = msg\<rparr>"

datatype track_state = Live | Ended

record media_track =
  track_label :: string
  readyState :: track_state

text \<open>\<^verbatim>\<open>track.stop()\<close> ends the track; the platform does not have it throw.\<close>

definition track_stop :: "media_track \<Rightarrow> media_track" where
  "track_stop t = t\<lparr>readyState := Ended\<rparr>"

text \<open>
  One entry of \<^verbatim>\<open>event.results\<close>, read as the hook reads it: \<^verbatim>\<open>result.isFinal\<close> and the
  first alternative \<^verbatim>\<open>result[0]\<close> (the hook sets \<^verbatim>\<open>maxAlternatives = 1\<close>).
\<close>

record speech_result =
  isFinal :: bool
  alt_transcript :: string
  alt_confidence :: rat

record speech_event =
  resultIndex :: nat
  results :: "speech_result list"

datatype recognition_event =
    OnStart
  | OnResult speech_event
  | OnError string
  | OnEnd

text \<open>
  What the browser answers during one call of \<^verbatim>\<open>startListening\<close>: whether a recognition
  constructor is on \<^verbatim>\<open>window\<close>, whether \<^verbatim>\<open>navigator.mediaDevices.getUserMedia\<close> exists,
  how \<^verbatim>\<open>getUserMedia({audio: true})\<close> settles (rejected with an error, or resolved with the
  tracks of a stream), and what \<^verbatim>\<open>new SpeechRecognition()\<close> and \<^verbatim>\<open>recognition.start()\<close>
  throw, if anything.
\<close>

record environment =
  isSupported :: bool
  mediaDevices_available :: bool
  getUserMedia :: "js_error + media_track list"
  construct_throws :: "js_error option"
  start_throws :: "js_error option"

subsection \<open>The state of the hook\<close>

text \<open>
  \<open>isListening\<close>, \<open>transcript\<close>, \<open>confidence\<close> and \<open>error\<close> are the four
  \<^verbatim>\<open>useState\<close> cells, \<open>recognitionRef\<close> is \<^verbatim>\<open>recognitionRef.current\<close>. The last three
  fields belong to the browser: how many recognition objects have been constructed, and on
  which of them \<^verbatim>\<open>start()\<close> and \<^verbatim>\<open>stop()\<close> have been called, in order.
\<close>

record world =
  isListening :: bool
  transcript :: string
  confidence :: rat
  error :: "string option"
  recognitionRef :: "handle option"
  constructed :: nat
  start_calls :: "handle list"
  stop_calls :: "handle list"

definition initial_world :: world where
  "initial_world =
     \<lparr>isListening = False, transcript = [], confidence = 0, error = None,
      recognitionRef = None, constructed = 0, start_calls = [], stop_calls = []\<rparr>"

text \<open>
  How a call ends: it returns, or it throws to its caller. Both carry the state reached,
  since the updates made before a throw stay.
\<close>

datatype outcome = Returned world | Thrown js_error world

fun world_of :: "outcome \<Rightarrow> world" where
  "world_of (Returned w) = w"
| "world_of (Thrown e w) = w"

fun returns :: "outcome \<Rightarrow> bool" where
  "returns (Returned w) = True"
| "returns (Thrown e w) = False"

subsection \<open>resetTranscript\<close>

definition resetTranscript :: "world \<Rightarrow> world" where
  "resetTranscript w = w\<lparr>transcript := [], confidence := 0, error := None\<rparr>"

subsection \<open>stopListening\<close>

text \<open>
  Modelled from the spec: the platform's \<^verbatim>\<open>stop()\<close> of a recognition object, which is not
  code of the repository. Section 4.1 of the specification has it idempotent and never an
  error, so it records the call and returns.
\<close>

definition recognition_stop :: "handle \<Rightarrow> world \<Rightarrow> outcome" where
  "recognition_stop h w = Returned (w\<lparr>stop_calls := stop_calls w @ [h]\<rparr>)"

text \<open>
  There is no \<^verbatim>\<open>try\<close> in \<^verbatim>\<open>stopListening\<close>: a throw of \<^verbatim>\<open>stop()\<close> would leave through it,
  before the ref is cleared and the flag lowered.
\<close>

definition stopListening :: "world \<Rightarrow> outcome" where
  "stopListening w =
     (case recognitionRef w of
        Some h \<Rightarrow>
          (case recognition_stop h w of
             Thrown e w' \<Rightarrow> Thrown e w'
           | Returned w' \<Rightarrow> Returned (w'\<lparr>recognitionRef := None, isListening := False\<rparr>))
      | None \<Rightarrow> Returned (w\<lparr>isListening := False\<rparr>))"

subsection \<open>checkMicrophonePermission\<close>

text \<open>
  The body of the \<^verbatim>\<open>try\<close>: the first component is what it throws or returns, the second
  the tracks the probe was handed, in the state the probe leaves them. Without
  \<^verbatim>\<open>getUserMedia\<close> it throws a plain \<^verbatim>\<open>Error\<close>; a rejected request throws the rejection
  and hands no stream over; a resolved one has every track stopped before \<open>true\<close> is
  returned.
\<close>

definition checkMicrophonePermission_try ::
  "environment \<Rightarrow> (js_error + bool) \<times> media_track list" where
  "checkMicrophonePermission_try env =
     (if \<not> mediaDevices_available env
      then (Inl (new_Error ''Microphone access is not supported in this browser''), [])
      else (case getUserMedia env of
              Inl err \<Rightarrow> (Inl err, [])
            | Inr stream \<Rightarrow> (Inr True, map track_stop stream)))"

text \<open>The \<^verbatim>\<open>catch\<close>: the message of the error thrown on, chosen by \<^verbatim>\<open>err.name\<close>.\<close>

definition permission_message :: "string \<Rightarrow> string" where
  "permission_message nm =
     (if nm = ''NotAllowedError''
      then ''Microphone access denied. Please allow microphone access and try again.''
      else if nm = ''NotFoundError''
      then ''No microphone found. Please connect a microphone and try again.''
      else if nm = ''NotSupportedError''
      then ''Microphone access is not supported in this browser.''
      else ''Failed to access microphone. Please check your browser settings.'')"

definition checkMicrophonePermission ::
  "environment \<Rightarrow> (js_error + bool) \<times> media_track list" where
  "checkMicrophonePermission env =
     (case checkMicrophonePermission_try env of
        (Inl err, tracks) \<Rightarrow> (Inl (new_Error (permission_message (err_name err))), tracks)
      | (Inr ok, tracks) \<Rightarrow> (Inr ok, tracks))"

subsection \<open>The handlers of a recognition object\<close>

text \<open>
  The four handlers are closures over the setters of the hook and over nothing else:
  none of them reads \<^verbatim>\<open>recognitionRef\<close> or the object it is attached to.
\<close>

definition onstart :: "world \<Rightarrow> world" where
  "onstart w = w\<lparr>isListening := True, error := None\<rparr>"

text \<open>
  The loop of \<^verbatim>\<open>onresult\<close>, from \<^verbatim>\<open>i\<close> to \<^verbatim>\<open>event.results.length\<close>. The accumulator is
  \<^verbatim>\<open>finalTranscript\<close>, \<^verbatim>\<open>interimTranscript\<close> and the confidence cell, which
  \<^verbatim>\<open>setConfidence\<close> overwrites at every final result.
\<close>

function onresult_loop ::
  "speech_result list \<Rightarrow> nat \<Rightarrow> string \<times> string \<times> rat \<Rightarrow> string \<times> string \<times> rat" where
  "onresult_loop rs i (finalTranscript, interimTranscript, conf) =
     (if i < length rs
      then (if isFinal (rs ! i)
            then onresult_loop rs (Suc i)
                   (finalTranscript @ alt_transcript (rs ! i), interimTranscript,
                    alt_confidence (rs ! i))
            else onresult_loop rs (Suc i)
                   (finalTranscript, interimTranscript @ alt_transcript (rs ! i), conf))
      else (finalTranscript, interimTranscript, conf))"
  by pat_completeness auto
termination
  by (relation "measure (\<lambda>(rs, i, acc). length rs - i)") auto

declare onresult_loop.simps [simp del]

definition onresult :: "speech_event \<Rightarrow> world \<Rightarrow> world" where
  "onresult ev w =
     (case onresult_loop (results ev) (resultIndex ev) ([], [], confidence w) of
        (finalTranscript, interimTranscript, conf) \<Rightarrow>
          w\<lparr>confidence := conf, transcript := finalTranscript @ interimTranscript\<rparr>)"

text \<open>The \<^verbatim>\<open>switch\<close> of \<^verbatim>\<open>onerror\<close> on \<^verbatim>\<open>event.error\<close>.\<close>

definition onerror_message :: "string \<Rightarrow> string" where
  "onerror_message code =
     (if code = ''not-allowed''
      then ''Microphone access denied. Please allow microphone access in your browser settings and try again.''
      else if code = ''no-speech''
      then ''No speech detected. Please speak clearly and try again.''
      else if code = ''audio-capture''
      then ''No microphone found. Please connect a microphone and try again.''
      else if code = ''network''
      then ''Network error occurred. Please check your internet connection.''
      else if code = ''service-not-allowed''
      then ''Speech recognition service not allowed. Please try again.''
      else if code = ''bad-grammar''
      then ''Speech recognition grammar error. Please try again.''
      else if code = ''language-not-supported''
      then ''Language not supported. Please try again.''
      else ''Speech recognition error: '' @ code @ ''. Please try again.'')"

definition onerror :: "string \<Rightarrow> world \<Rightarrow> world" where
  "onerror code w = w\<lparr>isListening := False, error := Some (onerror_message code)\<rparr>"

definition onend :: "world \<Rightarrow> world" where
  "onend w = w\<lparr>isListening := False\<rparr>"

text \<open>
  The browser raising an event on the recognition object \<open>h\<close>. The handle says which
  object raised it; the handler that runs does not look at it.
\<close>

fun deliver :: "handle \<Rightarrow> recognition_event \<Rightarrow> world \<Rightarrow> world" where
  "deliver h OnStart w = onstart w"
| "deliver h (OnResult ev) w = onresult ev w"
| "deliver h (OnError code) w = onerror code w"
| "deliver h OnEnd w = onend w"

subsection \<open>startListening\<close>

text \<open>
  \<^verbatim>\<open>startListening\<close> is asynchronous and suspends once, at
  \<^verbatim>\<open>await checkMicrophonePermission()\<close>. \<open>startListening_begin\<close> is what runs before the
  suspension, \<open>startListening_resume\<close> what runs when the request has settled; other
  commands and events may run in between.
\<close>

definition unsupported_message :: string where
  "unsupported_message =
     ''Speech recognition is not supported in this browser. Please use Chrome, Edge, or Safari.''"

definition startListening_begin :: "environment \<Rightarrow> world \<Rightarrow> world" where
  "startListening_begin env w =
     (if \<not> isSupported env then w\<lparr>error := Some unsupported_message\<rparr>
      else w\<lparr>error := None\<rparr>)"

text \<open>
  The rest of the \<^verbatim>\<open>try\<close> block. The new object is stored in \<^verbatim>\<open>recognitionRef\<close> before
  \<^verbatim>\<open>recognition.start()\<close> is called, so it stays there when \<^verbatim>\<open>start()\<close> throws.
\<close>

definition startListening_try :: "environment \<Rightarrow> world \<Rightarrow> outcome" where
  "startListening_try env w =
     (case fst (checkMicrophonePermission env) of
        Inl err \<Rightarrow> Thrown err w
      | Inr ok \<Rightarrow>
          (case construct_throws env of
             Some err \<Rightarrow> Thrown err w
           | None \<Rightarrow>
               (let recognition = constructed w;
                    w1 = w\<lparr>constructed := Suc recognition\<rparr>;
                    w2 = w1\<lparr>recognitionRef := Some recognition\<rparr>
                in (case start_throws env of
                      Some err \<Rightarrow> Thrown err w2
                    | None \<Rightarrow> Returned (w2\<lparr>start_calls := start_calls w2 @ [recognition]\<rparr>)))))"

text \<open>The \<^verbatim>\<open>catch\<close> block: \<^verbatim>\<open>err.message || '...'\<close> takes the fallback for an empty message.\<close>

definition startListening_catch :: "js_error \<Rightarrow> world \<Rightarrow> outcome" where
  "startListening_catch err w =
     Returned (w\<lparr>error := Some (if err_message err = []
                                  then ''Failed to start speech recognition. Please try again.''
                                  else err_message err),
                 isListening := False\<rparr>)"

definition startListening_resume :: "environment \<Rightarrow> world \<Rightarrow> outcome" where
  "startListening_resume env w =
     (case startListening_try env w of
        Thrown err w' \<Rightarrow> startListening_catch err w'
      | Returned w' \<Rightarrow> Returned w')"

text \<open>A call of \<^verbatim>\<open>startListening\<close> with nothing running during its suspension.\<close>

definition startListening :: "environment \<Rightarrow> world \<Rightarrow> outcome" where
  "startListening env w =
     (if \<not> isSupported env then Returned (startListening_begin env w)
      else startListening_resume env (startListening_begin env w))"

subsection \<open>The error display of VoiceRecorder\<close>

text \<open>\<^verbatim>\<open>String.prototype.includes\<close>: the needle occurs in the string as a contiguous run.\<close>

definition js_includes :: "string \<Rightarrow> string \<Rightarrow> bool" where
  "js_includes s needle = sublist needle s"

text \<open>The test the component makes twice: \<^verbatim>\<open>error.includes('denied') || error.includes('not-allowed')\<close>.\<close>

definition is_permission_error :: "string \<Rightarrow> bool" where
  "is_permission_error err = (js_includes err ''denied'' \<or> js_includes err ''not-allowed'')"

text \<open>The button under the message: the permission instructions toggle, or "Try again".\<close>

datatype error_button = ShowPermissionInstructions | TryAgain

definition error_button_for :: "string \<Rightarrow> error_button" where
  "error_button_for err = (if is_permission_error err then ShowPermissionInstructions else TryAgain)"

text \<open>
  Whether the ordered list of browser steps is rendered: after the early return of the
  component when \<^verbatim>\<open>isSupported\<close> is false, inside \<^verbatim>\<open>{error && (...)}\<close>, which a null or
  empty error switches off, and under
  \<^verbatim>\<open>showPermissionHelp && (error.includes('denied') || error.includes('not-allowed'))\<close>.
\<close>

definition permission_steps_rendered :: "bool \<Rightarrow> bool \<Rightarrow> string option \<Rightarrow> bool" where
  "permission_steps_rendered supported showPermissionHelp err =
     (if \<not> supported then False
      else (case err of
              None \<Rightarrow> False
            | Some e \<Rightarrow> e \<noteq> [] \<and> showPermissionHelp \<and> is_permission_error e))"

subsection \<open>Runs of the hook\<close>

text \<open>
  What can happen to the hook, one thing at a time on the single event queue: the two
  halves of a \<^verbatim>\<open>startListening\<close> call, the two other commands, and an event raised by a
  recognition object. When the capability probe is false, \<^verbatim>\<open>startListening\<close> has returned
  in its first half and nothing resumes.
\<close>

datatype action =
    StartBegin environment
  | StartResume environment
  | Stop
  | Reset
  | Event handle recognition_event

fun step :: "action \<Rightarrow> world \<Rightarrow> world" where
  "step (StartBegin env) w = startListening_begin env w"
| "step (StartResume env) w =
     (if isSupported env then world_of (startListening_resume env w) else w)"
| "step Stop w = world_of (stopListening w)"
| "step Reset w = resetTranscript w"
| "step (Event h e) w = deliver h e w"

text \<open>A recognition object raises events only once \<^verbatim>\<open>start()\<close> has been called on it.\<close>

fun possible :: "action \<Rightarrow> world \<Rightarrow> bool" where
  "possible (Event h e) w = (h \<in> set (start_calls w))"
| "possible a w = True"

fun run :: "action list \<Rightarrow> world \<Rightarrow> world option" where
  "run [] w = Some w"
| "run (a # as) w = (if possible a w then run as (step a w) else None)"

text \<open>The permission request of an environment succeeds.\<close>

definition permission_granted :: "environment \<Rightarrow> bool" where
  "permission_granted env =
     (case fst (checkMicrophonePermission env) of Inl err \<Rightarrow> False | Inr ok \<Rightarrow> True)"

text \<open>Events alone, each with the object that raised it.\<close>

fun deliver_all :: "(handle \<times> recognition_event) list \<Rightarrow> world \<Rightarrow> world" where
  "deliver_all [] w = w"
| "deliver_all ((h, e) # es) w = deliver_all es (deliver h e w)"

subsection \<open>The specification's reading of transcripts and error codes\<close>

text \<open>
  The results an event delivers: those of \<^verbatim>\<open>event.results\<close> from \<^verbatim>\<open>event.resultIndex\<close> on.
\<close>

definition batch :: "speech_event \<Rightarrow> speech_result list" where
  "batch ev = drop (resultIndex ev) (results ev)"

text \<open>
  The transcript as section 4.2 of the specification words it, kept as a finalized
  prefix and a pending suffix: a final result appends its text to the prefix and clears
  the suffix, an interim result overwrites the suffix.
\<close>

fun spec_onResult :: "speech_result list \<Rightarrow> string \<times> string \<Rightarrow> string \<times> string" where
  "spec_onResult [] (finalizedPrefix, pendingSuffix) = (finalizedPrefix, pendingSuffix)"
| "spec_onResult (r # rs) (finalizedPrefix, pendingSuffix) =
     (if isFinal r then spec_onResult rs (finalizedPrefix @ alt_transcript r, [])
      else spec_onResult rs (finalizedPrefix, alt_transcript r))"

fun spec_session :: "speech_event list \<Rightarrow> string \<times> string \<Rightarrow> string \<times> string" where
  "spec_session [] acc = acc"
| "spec_session (ev # evs) acc = spec_session evs (spec_onResult (batch ev) acc)"

definition spec_transcript :: "speech_event list \<Rightarrow> string" where
  "spec_transcript evs = (case spec_session evs ([], []) of (p, s) \<Rightarrow> p @ s)"

text \<open>What the hook shows after one result event, in closed form.\<close>

definition event_transcript :: "speech_event \<Rightarrow> string" where
  "event_transcript ev =
     concat (map alt_transcript (filter isFinal (batch ev))) @
     concat (map alt_transcript (filter (\<lambda>r. \<not> isFinal r) (batch ev)))"

fun last_result_event :: "(handle \<times> recognition_event) list \<Rightarrow> speech_event option" where
  "last_result_event [] = None"
| "last_result_event ((h, e) # es) =
     (case last_result_event es of
        Some ev \<Rightarrow> Some ev
      | None \<Rightarrow> (case e of OnResult ev \<Rightarrow> Some ev | _ \<Rightarrow> None))"

text \<open>
  The values of \<^verbatim>\<open>event.error\<close>. The handler takes a \<^verbatim>\<open>SpeechRecognitionErrorEvent\<close>, whose
  \<^verbatim>\<open>error\<close> has the platform's type \<^verbatim>\<open>SpeechRecognitionErrorCode\<close>, a closed union of string
  literals that the browser's typings declare and the repository does not: these nine.
\<close>

definition SpeechRecognitionErrorCode :: "string list" where
  "SpeechRecognitionErrorCode =
     [''aborted'', ''audio-capture'', ''bad-grammar'', ''language-not-supported'',
      ''network'', ''no-speech'', ''not-allowed'', ''phrases-not-supported'',
      ''service-not-allowed'']"

text \<open>The taxonomy table of section 4.2 of the specification, row by row.\<close>

datatype error_kind =
    PermissionDenied
  | NoSpeechDetected
  | DeviceUnavailable
  | NetworkError
  | ServiceDenied
  | ConfigurationError
  | Unknown string

definition spec_classify :: "string \<Rightarrow> error_kind" where
  "spec_classify code =
     (if code = ''not-allowed'' then PermissionDenied
      else if code = ''no-speech'' then NoSpeechDetected
      else if code = ''audio-capture'' then DeviceUnavailable
      else if code = ''network'' then NetworkError
      else if code = ''service-not-allowed'' then ServiceDenied
      else if code = ''bad-grammar'' \<or> code = ''language-not-supported'' then ConfigurationError
      else Unknown code)"

subsection \<open>Environments\<close>

text \<open>
  A call of \<^verbatim>\<open>startListening\<close> gets through its \<^verbatim>\<open>try\<close> block: the permission request
  succeeds and neither the constructor nor \<^verbatim>\<open>start()\<close> throws.
\<close>

definition start_succeeds :: "environment \<Rightarrow> bool" where
  "start_succeeds env =
     (permission_granted env \<and> construct_throws env = None \<and> start_throws env = None)"

text \<open>Two browsers: one where the user allows the microphone, one where the user refuses.\<close>

definition granting_browser :: environment where
  "granting_browser =
     \<lparr>isSupported = True, mediaDevices_available = True,
      getUserMedia = Inr [\<lparr>track_label = ''microphone'', readyState = Live\<rparr>],
      construct_throws = None, start_throws = None\<rparr>"

definition denying_browser :: environment where
  "denying_browser =
     \<lparr>isSupported = True, mediaDevices_available = True,
      getUserMedia = Inl \<lparr>err_name = ''NotAllowedError'', err_message = ''Permission denied''\<rparr>,
      construct_throws = None, start_throws = None\<rparr>"

section \<open>Properties\<close>

lemmas start_defs = startListening_def startListening_begin_def startListening_resume_def
  startListening_try_def startListening_catch_def checkMicrophonePermission_def
  checkMicrophonePermission_try_def permission_message_def new_Error_def

lemmas handler_defs = onstart_def onerror_def onend_def


subsection \<open>The result handler in closed form\<close>

lemma onresult_loop_closed:
  "onresult_loop rs i (f, t, c) =
     (f @ concat (map alt_transcript (filter isFinal (drop i rs))),
      t @ concat (map alt_transcript (filter (\<lambda>r. \<not> isFinal r) (drop i rs))),
      (case rev (filter isFinal (drop i rs)) of [] \<Rightarrow> c | r # _ \<Rightarrow> alt_confidence r))"
proof (induction rs i "(f, t, c)" arbitrary: f t c rule: onresult_loop.induct)
  case (1 rs i f t c)
  note unfold = onresult_loop.simps [of rs i f t c]
  show ?case
  proof (cases "i < length rs")
    case inside: True
    then have d: "drop i rs = rs ! i # drop (Suc i) rs"
      by (simp add: Cons_nth_drop_Suc)
    show ?thesis
    proof (cases "isFinal (rs ! i)")
      case True
      with inside 1(1) d unfold show ?thesis
        by (simp split: list.splits)
    next
      case False
      with inside 1(2) d unfold show ?thesis
        by simp
    qed
  next
    case False
    with unfold show ?thesis by simp
  qed
qed

lemma transcript_onresult: "transcript (onresult ev w) = event_transcript ev"
  by (simp add: onresult_def onresult_loop_closed event_transcript_def batch_def)

lemma confidence_onresult:
  "confidence (onresult ev w) =
     (case rev (filter isFinal (batch ev)) of [] \<Rightarrow> confidence w | r # _ \<Rightarrow> alt_confidence r)"
  by (simp add: onresult_def onresult_loop_closed batch_def)


lemma transcript_deliver_all:
  "transcript (deliver_all es w) =
     (case last_result_event es of None \<Rightarrow> transcript w | Some ev \<Rightarrow> event_transcript ev)"
proof (induction es arbitrary: w)
  case Nil
  show ?case by simp
next
  case (Cons x es)
  obtain h e where x: "x = (h, e)" by (cases x)
  show ?case
  proof (cases "last_result_event es")
    case None
    then show ?thesis
      by (cases e) (simp_all add: x Cons.IH transcript_onresult onstart_def onerror_def onend_def)
  next
    case (Some ev)
    then show ?thesis
      by (simp add: x Cons.IH)
  qed
qed

subsection \<open>The transcript\<close>

text \<open>
  C1. The transcript is to be all finalized text received so far, in arrival order,
  followed by the latest interim text. The hook asks for continuous recognition and
  appends each final text to \<^verbatim>\<open>finalTranscript\<close> from \<^verbatim>\<open>event.resultIndex\<close> on, but
  \<^verbatim>\<open>finalTranscript\<close> is declared inside the handler and so starts from the empty string
  at every event. On the dictation of the specification's scenarios C and D (a first
  event with the final result "a red sun", a second event whose new result, at index 1,
  is the interim "over the sea") the hook shows "over the sea", where the transcript
  required is "a red sunover the sea": the finalized text is lost.
\<close>

theorem transcript_forgets_earlier_finals:
  "transcript (deliver_all
       [(0, OnResult \<lparr>resultIndex = 0, results =
            [\<lparr>isFinal = True, alt_transcript = ''a red sun'', alt_confidence = 23 / 25\<rparr>]\<rparr>),
        (0, OnResult \<lparr>resultIndex = 1, results =
            [\<lparr>isFinal = True, alt_transcript = ''a red sun'', alt_confidence = 23 / 25\<rparr>,
             \<lparr>isFinal = False, alt_transcript = ''over the sea'', alt_confidence = 0\<rparr>]\<rparr>)]
       initial_world) = ''over the sea'' \<and>
   spec_transcript
       [\<lparr>resultIndex = 0, results =
            [\<lparr>isFinal = True, alt_transcript = ''a red sun'', alt_confidence = 23 / 25\<rparr>]\<rparr>,
        \<lparr>resultIndex = 1, results =
            [\<lparr>isFinal = True, alt_transcript = ''a red sun'', alt_confidence = 23 / 25\<rparr>,
             \<lparr>isFinal = False, alt_transcript = ''over the sea'', alt_confidence = 0\<rparr>]\<rparr>]
     = ''a red sunover the sea''"
  by (simp add: transcript_onresult event_transcript_def spec_transcript_def batch_def)

subsection \<open>What stopListening leaves\<close>

lemma stopListening_closed:
  "stopListening w =
     Returned (w\<lparr>stop_calls := (case recognitionRef w of
                                  None \<Rightarrow> stop_calls w
                                | Some h \<Rightarrow> stop_calls w @ [h]),
                 recognitionRef := None, isListening := False\<rparr>)"
  by (simp add: stopListening_def recognition_stop_def split: option.splits)

text \<open>
  C9. For every prior state, listening or not, \<^verbatim>\<open>stopListening\<close> returns, and after it the
  listening flag is false and no recognition object is stored in \<^verbatim>\<open>recognitionRef\<close>, while
  transcript, confidence and error are what they were.
\<close>

theorem stopListening_clears_flag_and_ref:
  "returns (stopListening w) \<and>
   isListening (world_of (stopListening w)) = False \<and>
   recognitionRef (world_of (stopListening w)) = None \<and>
   transcript (world_of (stopListening w)) = transcript w \<and>
   confidence (world_of (stopListening w)) = confidence w \<and>
   error (world_of (stopListening w)) = error w"
  by (simp add: stopListening_closed)

subsection \<open>startListening while listening\<close>

lemma startListening_returns: "returns (startListening env w)"
  by (simp add: startListening_def startListening_resume_def startListening_catch_def
      split: outcome.splits)

lemma startListening_success:
  assumes "isSupported env" "start_succeeds env"
  shows "startListening env w =
     Returned (w\<lparr>error := None, constructed := Suc (constructed w),
                 recognitionRef := Some (constructed w),
                 start_calls := start_calls w @ [constructed w]\<rparr>)"
  using assms
  by (auto simp: start_succeeds_def permission_granted_def startListening_def
      startListening_begin_def startListening_resume_def startListening_try_def Let_def
      split: sum.splits)

lemma startListening_failure:
  assumes "isSupported env" "\<not> start_succeeds env"
  shows "\<not> isListening (world_of (startListening env w)) \<and>
         error (world_of (startListening env w)) \<noteq> None \<and>
         transcript (world_of (startListening env w)) = transcript w \<and>
         confidence (world_of (startListening env w)) = confidence w"
  using assms
  by (auto simp: start_succeeds_def permission_granted_def startListening_def
      startListening_begin_def startListening_resume_def startListening_try_def
      startListening_catch_def Let_def
      split: sum.splits option.splits)

text \<open>
  C2, as the specification states it, fails: \<^verbatim>\<open>startListening\<close> never reads \<^verbatim>\<open>isListening\<close>.
  From the state reached by a first successful start and its \<^verbatim>\<open>onstart\<close> (listening, object
  0 stored), a second call in the same browser constructs object 1 and stores it in place
  of object 0; and a second call whose permission request is refused lowers the listening
  flag and records an error.
\<close>

theorem startListening_while_listening_restarts:
  "run [StartBegin granting_browser, StartResume granting_browser, Event 0 OnStart] initial_world =
     Some \<lparr>isListening = True, transcript = [], confidence = 0, error = None,
           recognitionRef = Some 0, constructed = 1, start_calls = [0], stop_calls = []\<rparr> \<and>
   startListening granting_browser
       \<lparr>isListening = True, transcript = [], confidence = 0, error = None,
        recognitionRef = Some 0, constructed = 1, start_calls = [0], stop_calls = []\<rparr> =
     Returned \<lparr>isListening = True, transcript = [], confidence = 0, error = None,
        recognitionRef = Some 1, constructed = 2, start_calls = [0, 1], stop_calls = []\<rparr> \<and>
   startListening denying_browser
       \<lparr>isListening = True, transcript = [], confidence = 0, error = None,
        recognitionRef = Some 0, constructed = 1, start_calls = [0], stop_calls = []\<rparr> =
     Returned \<lparr>isListening = False, transcript = [], confidence = 0,
        error = Some ''Microphone access denied. Please allow microphone access and try again.'',
        recognitionRef = Some 0, constructed = 1, start_calls = [0], stop_calls = []\<rparr>"
  by (simp add: granting_browser_def denying_browser_def initial_world_def start_defs handler_defs)

text \<open>
  C2, amended. In a supported environment, a call of \<^verbatim>\<open>startListening\<close> made while the hook
  is listening returns and leaves transcript and confidence unchanged, and it is not a
  no-op. When the permission request succeeds and the engine starts, the hook is still
  listening, the error is none, and a new recognition object has been constructed, stored
  in \<^verbatim>\<open>recognitionRef\<close> in place of the previous one, and started. Otherwise the hook is
  no longer listening and an error is recorded.
\<close>

theorem startListening_while_listening:
  assumes "isListening w" and "isSupported env"
  shows "returns (startListening env w) \<and>
         transcript (world_of (startListening env w)) = transcript w \<and>
         confidence (world_of (startListening env w)) = confidence w \<and>
         (if start_succeeds env
          then isListening (world_of (startListening env w)) \<and>
               error (world_of (startListening env w)) = None \<and>
               recognitionRef (world_of (startListening env w)) = Some (constructed w) \<and>
               constructed (world_of (startListening env w)) = Suc (constructed w) \<and>
               start_calls (world_of (startListening env w)) = start_calls w @ [constructed w]
          else \<not> isListening (world_of (startListening env w)) \<and>
               error (world_of (startListening env w)) \<noteq> None)"
proof (cases "start_succeeds env")
  case True
  with assms show ?thesis
    by (simp add: startListening_success)
next
  case False
  with assms startListening_failure [of env w] startListening_returns [of env w]
  show ?thesis
    by simp
qed

theorem startListening_while_listening_witness:
  "isListening \<lparr>isListening = True, transcript = ''a red sun'', confidence = 23 / 25,
        error = None, recognitionRef = Some 0, constructed = 1, start_calls = [0],
        stop_calls = []\<rparr> \<and>
   isSupported granting_browser \<and>
   start_succeeds granting_browser \<and>
   transcript (world_of (startListening granting_browser
      \<lparr>isListening = True, transcript = ''a red sun'', confidence = 23 / 25,
        error = None, recognitionRef = Some 0, constructed = 1, start_calls = [0],
        stop_calls = []\<rparr>)) = ''a red sun'' \<and>
   recognitionRef (world_of (startListening granting_browser
      \<lparr>isListening = True, transcript = ''a red sun'', confidence = 23 / 25,
        error = None, recognitionRef = Some 0, constructed = 1, start_calls = [0],
        stop_calls = []\<rparr>)) = Some 1"
proof -
  have s: "isSupported granting_browser"
    by (simp add: granting_browser_def)
  have g: "start_succeeds granting_browser"
    by (simp add: start_succeeds_def permission_granted_def checkMicrophonePermission_def
        checkMicrophonePermission_try_def granting_browser_def)
  show ?thesis
    using s g
      startListening_while_listening [of "\<lparr>isListening = True, transcript = ''a red sun'',
        confidence = 23 / 25, error = None, recognitionRef = Some 0, constructed = 1,
        start_calls = [0], stop_calls = []\<rparr>" granting_browser]
    by simp
qed

subsection \<open>Events of a recognition object that is no longer the stored one\<close>




subsection \<open>Runs: what makes the hook listen\<close>













subsection \<open>Error codes\<close>

lemma sublist_between:
  assumes "needle \<noteq> []" and "pre \<noteq> []" and "suf \<noteq> []"
    and "last pre \<notin> set needle" and "hd suf \<notin> set needle"
    and "\<not> sublist needle pre" and "\<not> sublist needle suf"
  shows "sublist needle (pre @ mid @ suf) \<longleftrightarrow> sublist needle mid"
proof
  assume "sublist needle mid"
  then show "sublist needle (pre @ mid @ suf)"
    by (metis sublist_append)
next
  assume "sublist needle (pre @ mid @ suf)"
  then consider "sublist needle pre" | "sublist needle (mid @ suf)"
    | xs1 xs2 where "needle = xs1 @ xs2" "suffix xs1 pre" "prefix xs2 (mid @ suf)"
    by (auto simp: sublist_append [of needle pre])
  then have "sublist needle (mid @ suf)"
  proof cases
    case 1
    with assms show ?thesis by simp
  next
    case 2
    then show ?thesis .
  next
    case 3
    show ?thesis
    proof (cases "xs1 = []")
      case True
      with 3 show ?thesis by (auto intro: prefix_imp_sublist)
    next
      case False
      with 3(2) assms(2) have "last xs1 = last pre"
        by (auto simp: suffix_def)
      with False 3(1) assms(4) last_in_set [of xs1] show ?thesis
        by auto
    qed
  qed
  then consider "sublist needle mid" | "sublist needle suf"
    | ys1 ys2 where "needle = ys1 @ ys2" "suffix ys1 mid" "prefix ys2 suf"
    by (auto simp: sublist_append [of needle mid])
  then show "sublist needle mid"
  proof cases
    case 1
    then show ?thesis .
  next
    case 2
    with assms show ?thesis by simp
  next
    case 3
    show ?thesis
    proof (cases "ys2 = []")
      case True
      with 3 show ?thesis by (auto intro: suffix_imp_sublist)
    next
      case False
      with 3(3) assms(3) have "hd ys2 = hd suf"
        by (auto simp: prefix_def)
      with False 3(1) assms(5) hd_in_set [of ys2] show ?thesis
        by auto
    qed
  qed
qed

lemma default_message_includes:
  "js_includes (''Speech recognition error: '' @ code @ ''. Please try again.'') ''denied''
     \<longleftrightarrow> js_includes code ''denied''"
  "js_includes (''Speech recognition error: '' @ code @ ''. Please try again.'') ''not-allowed''
     \<longleftrightarrow> js_includes code ''not-allowed''"
  unfolding js_includes_def
  by (intro sublist_between; simp add: sublist_Cons_right)+

lemma onerror_message_rows:
  "(spec_classify code = PermissionDenied \<longleftrightarrow> onerror_message code =
      ''Microphone access denied. Please allow microphone access in your browser settings and try again.'')"
  "(spec_classify code = NoSpeechDetected \<longleftrightarrow> onerror_message code =
      ''No speech detected. Please speak clearly and try again.'')"
  "(spec_classify code = DeviceUnavailable \<longleftrightarrow> onerror_message code =
      ''No microphone found. Please connect a microphone and try again.'')"
  "(spec_classify code = NetworkError \<longleftrightarrow> onerror_message code =
      ''Network error occurred. Please check your internet connection.'')"
  "(spec_classify code = ServiceDenied \<longleftrightarrow> onerror_message code =
      ''Speech recognition service not allowed. Please try again.'')"
  "(spec_classify code = ConfigurationError \<longleftrightarrow>
      onerror_message code = ''Speech recognition grammar error. Please try again.'' \<or>
      onerror_message code = ''Language not supported. Please try again.'')"
  "(spec_classify code = Unknown code \<longleftrightarrow> onerror_message code =
      ''Speech recognition error: '' @ code @ ''. Please try again.'')"
  by (simp_all add: spec_classify_def onerror_message_def)

lemma named_messages_not_permission:
  "is_permission_error
     ''Microphone access denied. Please allow microphone access in your browser settings and try again.''"
  "\<not> is_permission_error ''No speech detected. Please speak clearly and try again.''"
  "\<not> is_permission_error ''No microphone found. Please connect a microphone and try again.''"
  "\<not> is_permission_error ''Network error occurred. Please check your internet connection.''"
  "\<not> is_permission_error ''Speech recognition service not allowed. Please try again.''"
  "\<not> is_permission_error ''Speech recognition grammar error. Please try again.''"
  "\<not> is_permission_error ''Language not supported. Please try again.''"
  by (simp_all add: is_permission_error_def js_includes_def sublist_Cons_right)

lemma is_permission_error_onerror_message:
  "is_permission_error (onerror_message code) \<longleftrightarrow>
     spec_classify code = PermissionDenied \<or>
     spec_classify code = Unknown code \<and>
       (js_includes code ''denied'' \<or> js_includes code ''not-allowed'')"
proof (cases "spec_classify code = Unknown code")
  case True
  then have msg: "onerror_message code =
      ''Speech recognition error: '' @ code @ ''. Please try again.''"
    by (simp only: onerror_message_rows)
  have "is_permission_error (onerror_message code) \<longleftrightarrow>
      js_includes code ''denied'' \<or> js_includes code ''not-allowed''"
    by (simp only: msg is_permission_error_def default_message_includes)
  with True show ?thesis
    by simp
next
  case False
  then show ?thesis
    using named_messages_not_permission
    by (auto simp: spec_classify_def onerror_message_def split: if_splits)
qed

lemma onerror_message_nonempty: "onerror_message code \<noteq> []"
  by (simp add: onerror_message_def)

lemma platform_codes_permission:
  assumes "code \<in> set SpeechRecognitionErrorCode"
  shows "is_permission_error (onerror_message code) \<longleftrightarrow> spec_classify code = PermissionDenied"
proof -
  from assms have "code = ''aborted'' \<or> code = ''audio-capture'' \<or> code = ''bad-grammar'' \<or>
      code = ''language-not-supported'' \<or> code = ''network'' \<or> code = ''no-speech'' \<or>
      code = ''not-allowed'' \<or> code = ''phrases-not-supported'' \<or>
      code = ''service-not-allowed''"
    by (simp add: SpeechRecognitionErrorCode_def)
  then have "\<not> (spec_classify code = Unknown code \<and>
      (js_includes code ''denied'' \<or> js_includes code ''not-allowed''))"
    by (elim disjE; simp add: spec_classify_def js_includes_def sublist_Cons_right)
  with is_permission_error_onerror_message [of code] show ?thesis
    by blast
qed

text \<open>
  C4. \<^verbatim>\<open>onerror\<close> sets the listening flag to false and the error to a message that is a
  function of the reported code alone, leaving transcript and confidence unchanged. The
  messages follow the taxonomy table: a code has a given kind of the table exactly when
  its message is the one (for \<open>ConfigurationError\<close>, one of the two) that the \<^verbatim>\<open>switch\<close>
  has for that row, and the kind \<open>Unknown\<close> exactly when the message is that of the
  \<^verbatim>\<open>default\<close> arm, which embeds the code. For every code the platform can report, the
  component offers the permission instructions, and renders the steps once the user has
  opened them in a supported browser, exactly when the kind is \<open>PermissionDenied\<close>.
\<close>

theorem onerror_classifies_by_code:
  "isListening (onerror code w) = False \<and>
   error (onerror code w) = Some (onerror_message code) \<and>
   transcript (onerror code w) = transcript w \<and>
   confidence (onerror code w) = confidence w \<and>
   (spec_classify code = PermissionDenied \<longleftrightarrow> onerror_message code =
      ''Microphone access denied. Please allow microphone access in your browser settings and try again.'') \<and>
   (spec_classify code = NoSpeechDetected \<longleftrightarrow> onerror_message code =
      ''No speech detected. Please speak clearly and try again.'') \<and>
   (spec_classify code = DeviceUnavailable \<longleftrightarrow> onerror_message code =
      ''No microphone found. Please connect a microphone and try again.'') \<and>
   (spec_classify code = NetworkError \<longleftrightarrow> onerror_message code =
      ''Network error occurred. Please check your internet connection.'') \<and>
   (spec_classify code = ServiceDenied \<longleftrightarrow> onerror_message code =
      ''Speech recognition service not allowed. Please try again.'') \<and>
   (spec_classify code = ConfigurationError \<longleftrightarrow>
      onerror_message code = ''Speech recognition grammar error. Please try again.'' \<or>
      onerror_message code = ''Language not supported. Please try again.'') \<and>
   (spec_classify code = Unknown code \<longleftrightarrow> onerror_message code =
      ''Speech recognition error: '' @ code @ ''. Please try again.'') \<and>
   (code \<in> set SpeechRecognitionErrorCode \<longrightarrow>
      (error_button_for (onerror_message code) = ShowPermissionInstructions \<longleftrightarrow>
         spec_classify code = PermissionDenied) \<and>
      (permission_steps_rendered supported showPermissionHelp (error (onerror code w)) \<longleftrightarrow>
         supported \<and> showPermissionHelp \<and> spec_classify code = PermissionDenied))"
proof -
  have state: "isListening (onerror code w) = False"
    "error (onerror code w) = Some (onerror_message code)"
    "transcript (onerror code w) = transcript w"
    "confidence (onerror code w) = confidence w"
    by (simp_all add: onerror_def)
  have button: "error_button_for (onerror_message code) = ShowPermissionInstructions \<longleftrightarrow>
      is_permission_error (onerror_message code)"
    by (simp add: error_button_for_def)
  have steps: "permission_steps_rendered supported showPermissionHelp (error (onerror code w))
      \<longleftrightarrow> supported \<and> showPermissionHelp \<and> is_permission_error (onerror_message code)"
    by (simp add: permission_steps_rendered_def state onerror_message_nonempty)
  have shown: "code \<in> set SpeechRecognitionErrorCode \<longrightarrow>
      (error_button_for (onerror_message code) = ShowPermissionInstructions \<longleftrightarrow>
         spec_classify code = PermissionDenied) \<and>
      (permission_steps_rendered supported showPermissionHelp (error (onerror code w)) \<longleftrightarrow>
         supported \<and> showPermissionHelp \<and> spec_classify code = PermissionDenied)"
    using button steps platform_codes_permission [of code] by blast
  from state onerror_message_rows [of code] shown show ?thesis
    by (intro conjI) assumption+
qed

theorem onerror_classifies_by_code_witness:
  "''not-allowed'' \<in> set SpeechRecognitionErrorCode \<and>
   ''aborted'' \<in> set SpeechRecognitionErrorCode \<and>
   spec_classify ''not-allowed'' = PermissionDenied \<and>
   spec_classify ''aborted'' = Unknown ''aborted'' \<and>
   error (onerror ''aborted'' initial_world) =
     Some ''Speech recognition error: aborted. Please try again.'' \<and>
   error_button_for (onerror_message ''not-allowed'') = ShowPermissionInstructions \<and>
   error_button_for (onerror_message ''aborted'') \<noteq> ShowPermissionInstructions \<and>
   permission_steps_rendered True True (error (onerror ''not-allowed'' initial_world)) \<and>
   \<not> permission_steps_rendered True True (error (onerror ''aborted'' initial_world))"
proof -
  have m: "''not-allowed'' \<in> set SpeechRecognitionErrorCode"
    "''aborted'' \<in> set SpeechRecognitionErrorCode"
    by (simp_all add: SpeechRecognitionErrorCode_def)
  have k: "spec_classify ''not-allowed'' = PermissionDenied"
    "spec_classify ''aborted'' = Unknown ''aborted''"
    "spec_classify ''aborted'' \<noteq> PermissionDenied"
    by (simp_all add: spec_classify_def)
  have e: "error (onerror ''aborted'' initial_world) =
      Some ''Speech recognition error: aborted. Please try again.''"
    by (simp add: onerror_def onerror_message_def)
  from onerror_classifies_by_code [of "''not-allowed''" initial_world True True]
  have allowed: "''not-allowed'' \<in> set SpeechRecognitionErrorCode \<longrightarrow>
      (error_button_for (onerror_message ''not-allowed'') = ShowPermissionInstructions \<longleftrightarrow>
         spec_classify ''not-allowed'' = PermissionDenied) \<and>
      (permission_steps_rendered True True (error (onerror ''not-allowed'' initial_world)) \<longleftrightarrow>
         True \<and> True \<and> spec_classify ''not-allowed'' = PermissionDenied)"
    by (elim conjE)
  from onerror_classifies_by_code [of "''aborted''" initial_world True True]
  have aborted: "''aborted'' \<in> set SpeechRecognitionErrorCode \<longrightarrow>
      (error_button_for (onerror_message ''aborted'') = ShowPermissionInstructions \<longleftrightarrow>
         spec_classify ''aborted'' = PermissionDenied) \<and>
      (permission_steps_rendered True True (error (onerror ''aborted'' initial_world)) \<longleftrightarrow>
         True \<and> True \<and> spec_classify ''aborted'' = PermissionDenied)"
    by (elim conjE)
  from allowed m(1) k(1) have yes:
    "error_button_for (onerror_message ''not-allowed'') = ShowPermissionInstructions"
    "permission_steps_rendered True True (error (onerror ''not-allowed'' initial_world))"
    by blast+
  from aborted m(2) k(3) have no:
    "error_button_for (onerror_message ''aborted'') \<noteq> ShowPermissionInstructions"
    "\<not> permission_steps_rendered True True (error (onerror ''aborted'' initial_world))"
    by blast+
  from m k(1,2) e yes no show ?thesis
    by (intro conjI)
qed

subsection \<open>Errors of startListening\<close>

lemma startListening_forgets_error:
  "startListening env (w\<lparr>error := e\<rparr>) = startListening env w"
  by (simp add: startListening_def startListening_begin_def)

text \<open>
  C10. In a supported environment, the first half of every \<^verbatim>\<open>startListening\<close> call, which
  runs before the permission request settles, leaves the error none. The error after the
  whole call does not depend on the error recorded before it, and is none when the
  permission request succeeds and the engine starts.
\<close>

theorem startListening_clears_error_first:
  assumes "isSupported env"
  shows "error (startListening_begin env w) = None \<and>
         error (world_of (startListening env (w\<lparr>error := e\<rparr>))) =
           error (world_of (startListening env w)) \<and>
         (start_succeeds env \<longrightarrow> error (world_of (startListening env w)) = None)"
  using assms
  by (simp add: startListening_success startListening_begin_def startListening_forgets_error)

theorem startListening_clears_error_first_witness:
  "isSupported granting_browser \<and> start_succeeds granting_browser \<and>
   error (startListening_begin granting_browser
     \<lparr>isListening = False, transcript = [], confidence = 0,
      error = Some ''Network error occurred. Please check your internet connection.'',
      recognitionRef = None, constructed = 1, start_calls = [0], stop_calls = [0]\<rparr>) = None \<and>
   error (world_of (startListening granting_browser
     \<lparr>isListening = False, transcript = [], confidence = 0,
      error = Some ''Network error occurred. Please check your internet connection.'',
      recognitionRef = None, constructed = 1, start_calls = [0], stop_calls = [0]\<rparr>)) = None"
proof -
  have s: "isSupported granting_browser"
    by (simp add: granting_browser_def)
  have g: "start_succeeds granting_browser"
    by (simp add: start_succeeds_def permission_granted_def checkMicrophonePermission_def
        checkMicrophonePermission_try_def granting_browser_def)
  from startListening_clears_error_first [OF s,
      of "\<lparr>isListening = False, transcript = [], confidence = 0,
      error = Some ''Network error occurred. Please check your internet connection.'',
      recognitionRef = None, constructed = 1, start_calls = [0], stop_calls = [0]\<rparr>"] s g
  show ?thesis
    by simp
qed

text \<open>
  C6. \<^verbatim>\<open>startListening\<close>, its resumption after the permission request, and \<^verbatim>\<open>stopListening\<close>
  return in every environment and from every state: none throws to its caller. Whatever
  the \<^verbatim>\<open>try\<close> block of \<^verbatim>\<open>startListening\<close> throws (a failed permission probe, a throwing
  constructor, a throwing \<^verbatim>\<open>start()\<close>) ends as the error of the hook, with the listening
  flag false.
\<close>

theorem start_and_stop_never_throw:
  "returns (startListening env w) \<and>
   returns (startListening_resume env w) \<and>
   returns (stopListening w) \<and>
   (case startListening_try env w of
      Returned w' \<Rightarrow> startListening_resume env w = Returned w'
    | Thrown err w' \<Rightarrow>
        error (world_of (startListening_resume env w)) =
          Some (if err_message err = []
                then ''Failed to start speech recognition. Please try again.''
                else err_message err) \<and>
        \<not> isListening (world_of (startListening_resume env w)))"
  by (simp add: startListening_returns stopListening_closed startListening_resume_def
      startListening_catch_def split: outcome.splits)

subsection \<open>The permission probe\<close>

text \<open>
  C8. Every track the permission probe holds when it finishes, on whichever path, has
  been stopped. When the probe fails it was handed no track; when it succeeds its tracks
  are exactly those of the stream \<^verbatim>\<open>getUserMedia\<close> resolved with, each one stopped.
\<close>

theorem permission_probe_releases_tracks:
  "(\<forall>t \<in> set (snd (checkMicrophonePermission env)). readyState t = Ended) \<and>
   (case fst (checkMicrophonePermission env) of
      Inl err \<Rightarrow> snd (checkMicrophonePermission env) = []
    | Inr ok \<Rightarrow>
        (case getUserMedia env of
           Inl rejection \<Rightarrow> False
         | Inr stream \<Rightarrow> snd (checkMicrophonePermission env) = map track_stop stream))"
  by (auto simp: checkMicrophonePermission_def checkMicrophonePermission_try_def track_stop_def
      split: sum.splits)

theorem permission_probe_releases_tracks_witness:
  "snd (checkMicrophonePermission
      \<lparr>isSupported = True, mediaDevices_available = True,
       getUserMedia = Inr [\<lparr>track_label = ''built-in'', readyState = Live\<rparr>,
                           \<lparr>track_label = ''headset'', readyState = Live\<rparr>],
       construct_throws = None, start_throws = None\<rparr>) =
     [\<lparr>track_label = ''built-in'', readyState = Ended\<rparr>,
      \<lparr>track_label = ''headset'', readyState = Ended\<rparr>] \<and>
   list_all (\<lambda>t. readyState t = Ended)
     (snd (checkMicrophonePermission
      \<lparr>isSupported = True, mediaDevices_available = True,
       getUserMedia = Inr [\<lparr>track_label = ''built-in'', readyState = Live\<rparr>,
                           \<lparr>track_label = ''headset'', readyState = Live\<rparr>],
       construct_throws = None, start_throws = None\<rparr>))"
  using permission_probe_releases_tracks
    [of "\<lparr>isSupported = True, mediaDevices_available = True,
       getUserMedia = Inr [\<lparr>track_label = ''built-in'', readyState = Live\<rparr>,
                           \<lparr>track_label = ''headset'', readyState = Live\<rparr>],
       construct_throws = None, start_throws = None\<rparr>"]
  by (simp add: checkMicrophonePermission_def checkMicrophonePermission_try_def track_stop_def)

subsection \<open>What resetTranscript leaves\<close>

text \<open>
  C7. For every prior state, \<^verbatim>\<open>resetTranscript\<close> sets the transcript to the empty string,
  the confidence to zero and the error to none, and leaves the listening flag unchanged
  (as it leaves the stored handle and the browser).
\<close>

theorem resetTranscript_clears:
  "transcript (resetTranscript w) = [] \<and>
   confidence (resetTranscript w) = 0 \<and>
   error (resetTranscript w) = None \<and>
   isListening (resetTranscript w) = isListening w \<and>
   recognitionRef (resetTranscript w) = recognitionRef w \<and>
   constructed (resetTranscript w) = constructed w"
  by (simp add: resetTranscript_def)

end
